theory Spec2Isabelle
  imports Main
begin

section \<open>EOSMixin: settings, connection URL, client cache, contract lookup\<close>

text \<open>
  A shallow embedding of \<^verbatim>\<open>payments/coin_handlers/EOS/EOSMixin.py\<close>.
  Python values stored in the settings dictionaries are typed \<^verbatim>\<open>Any\<close> in the
  source; the fragment the mixin touches is \<^verbatim>\<open>None\<close>, booleans, integers and
  strings. Strings are ASCII byte strings.
\<close>

subsection \<open>Python values and exceptions\<close>

datatype pyval = PNone | PBool bool | PInt int | PStr string

datatype error =
    KeyError
  | AttributeError
  | TypeError
  | IndexError
  | TokenNotFound
  | MissingTokenMetadata
  | NoCoinAttribute
  | DoesNotExist
  | MultipleObjectsReturned

type_synonym dict = "string \<rightharpoonup> pyval"

text \<open>
  An entry of \<^verbatim>\<open>self.settings\<close> is annotated \<^verbatim>\<open>dict\<close>. The annotation is not
  enforced, and \<^verbatim>\<open>get_contract\<close> has a handler for a value without a
  \<^verbatim>\<open>.get\<close> method, so an entry is either a dictionary or some other value.
\<close>

datatype entry = Dict dict | NonDict

type_synonym settings = "string \<rightharpoonup> entry"

text \<open>Sequencing of a computation that may raise: the first exception wins.\<close>

definition bnd :: "error + 'a \<Rightarrow> ('a \<Rightarrow> error + 'b) \<Rightarrow> error + 'b" where
  "bnd m f = (case m of Inl e \<Rightarrow> Inl e | Inr x \<Rightarrow> f x)"

text \<open>\<^verbatim>\<open>d[k]\<close> on a dictionary raises \<^verbatim>\<open>KeyError\<close> for a missing key.\<close>

definition getitem :: "('k \<rightharpoonup> 'v) \<Rightarrow> 'k \<Rightarrow> error + 'v" where
  "getitem d k = (case d k of None \<Rightarrow> Inl KeyError | Some v \<Rightarrow> Inr v)"

text \<open>\<^verbatim>\<open>d.get(k)\<close> gives \<^verbatim>\<open>None\<close> for a missing key.\<close>

definition dict_get :: "dict \<Rightarrow> string \<Rightarrow> pyval" where
  "dict_get d k = (case d k of None \<Rightarrow> PNone | Some v \<Rightarrow> v)"

text \<open>\<^verbatim>\<open>m.get(k, default)\<close>.\<close>

definition get_default :: "('k \<rightharpoonup> 'v) \<Rightarrow> 'k \<Rightarrow> 'v \<Rightarrow> 'v" where
  "get_default m k d = (case m k of None \<Rightarrow> d | Some v \<Rightarrow> v)"

text \<open>Truth value of a Python value, as \<^verbatim>\<open>if v\<close> tests it.\<close>

fun truthy :: "pyval \<Rightarrow> bool" where
  "truthy PNone = False"
| "truthy (PBool b) = b"
| "truthy (PInt i) = (i \<noteq> 0)"
| "truthy (PStr s) = (s \<noteq> [])"

text \<open>Decimal digits of a natural number, the way \<^verbatim>\<open>str\<close> prints an integer.\<close>

definition digit_char :: "nat \<Rightarrow> char" where
  "digit_char n = ''0123456789'' ! n"

function str_nat :: "nat \<Rightarrow> string" where
  "str_nat n = (if n < 10 then [digit_char n] else str_nat (n div 10) @ [digit_char (n mod 10)])"
  by pat_completeness auto
termination
  by (relation "measure id") auto

declare str_nat.simps [simp del]

definition str_int :: "int \<Rightarrow> string" where
  "str_int i = (if i < 0 then CHR ''-'' # str_nat (nat (- i)) else str_nat (nat i))"

text \<open>What \<^verbatim>\<open>'{}'.format(v)\<close> prints.\<close>

fun str :: "pyval \<Rightarrow> string" where
  "str PNone = ''None''"
| "str (PBool b) = (if b then ''True'' else ''False'')"
| "str (PInt i) = str_int i"
| "str (PStr s) = s"

text \<open>
  Modelled from the spec: the helper \<^verbatim>\<open>steemengine.helpers.empty\<close> is imported by the
  mixin and its source is not part of the module. The specification treats an absent
  contract field (\<^verbatim>\<open>None\<close> from \<^verbatim>\<open>.get\<close>) and the empty string as empty, and
  everything else as a usable value.
\<close>

definition empty_py :: "pyval \<Rightarrow> bool" where
  "empty_py v = (v = PNone \<or> v = PStr [])"

text \<open>\<^verbatim>\<open>str.upper()\<close> on an ASCII string.\<close>

definition upper_char :: "char \<Rightarrow> char" where
  "upper_char c =
     (let n = (of_char c :: nat) in if 97 \<le> n \<and> n \<le> 122 then char_of (n - 32) else c)"

definition upper :: "string \<Rightarrow> string" where
  "upper s = map upper_char s"

subsection \<open>Class attributes\<close>

definition chain_coin :: string where
  "chain_coin = ''EOS''"

definition chain_type :: string where
  "chain_type = ''eos''"

definition setting_defaults :: dict where
  "setting_defaults = map_of
     [(''host'', PStr ''eos.greymass.com''),
      (''username'', PNone),
      (''password'', PNone),
      (''endpoint'', PStr ''/''),
      (''port'', PInt 443),
      (''ssl'', PBool True),
      (''precision'', PInt 4),
      (''telos'', PBool False),
      (''history_url'', PStr ''https://eos-history.privex.io''),
      (''load_method'', PStr ''actions'')]"

definition default_contracts :: "string \<rightharpoonup> string" where
  "default_contracts = map_of [(''EOS'', ''eosio.token'')]"

subsection \<open>The connection URL\<close>

text \<open>
  \<^verbatim>\<open>_make_url(**conn)\<close>. The keyword arguments are merged over
  \<^verbatim>\<open>setting_defaults\<close>; \<^verbatim>\<open>len(url)\<close> raises \<^verbatim>\<open>TypeError\<close> when the endpoint is
  not a string; \<^verbatim>\<open>url[1:]\<close> is \<open>tl\<close>, \<^verbatim>\<open>url[:-1]\<close> is \<open>butlast\<close>, and
  \<^verbatim>\<open>url[-1]\<close> raises \<^verbatim>\<open>IndexError\<close> on the empty string.
\<close>

definition make_url :: "dict \<Rightarrow> error + string" where
  "make_url conn =
     (let s = setting_defaults ++ conn in
      bnd (getitem s ''endpoint'') (\<lambda>url.
      bnd (getitem s ''ssl'') (\<lambda>ssl.
      let proto = (if truthy ssl then ''https'' else ''http'') in
      bnd (getitem s ''host'') (\<lambda>h.
      bnd (getitem s ''port'') (\<lambda>p.
      let host = str h @ '':'' @ str p in
      bnd (getitem s ''username'') (\<lambda>username.
      bnd (if username \<noteq> PNone
           then bnd (getitem s ''password'') (\<lambda>password.
                  Inr (str username @ '':'' @ str password @ ''@'' @ str h @ '':'' @ str p))
           else Inr host) (\<lambda>host.
      bnd (case url of
             PStr e \<Rightarrow> Inr (if length e > 0 \<and> hd e = CHR ''/'' then tl e else e)
           | _ \<Rightarrow> Inl TypeError) (\<lambda>url.
      let url = proto @ ''://'' @ host @ ''/'' @ url in
      if url = [] then Inl IndexError
      else Inr (if last url = CHR ''/'' then butlast url else url)))))))))"

subsection \<open>Chain settings\<close>

text \<open>
  \<^verbatim>\<open>eos_settings\<close>: the resolved mapping \<^verbatim>\<open>super().settings\<close> is computed by
  \<^verbatim>\<open>SettingsMixin\<close>, outside this module, and is a parameter here.
\<close>

definition eos_settings :: "settings \<Rightarrow> entry" where
  "eos_settings st = get_default st chain_coin (Dict setting_defaults)"

text \<open>
  The \<^verbatim>\<open>url\<close> property: \<^verbatim>\<open>_make_url(**self.eos_settings)\<close>. Unpacking a value
  that is not a mapping raises \<^verbatim>\<open>TypeError\<close>.
\<close>

definition url :: "settings \<Rightarrow> error + string" where
  "url st = (case eos_settings st of Dict d \<Rightarrow> make_url d | NonDict \<Rightarrow> Inl TypeError)"

subsection \<open>Contract lookup\<close>

text \<open>
  \<^verbatim>\<open>get_contract(symbol)\<close>, with \<^verbatim>\<open>self.settings\<close> and
  \<^verbatim>\<open>self.default_contracts\<close> as parameters. The first \<^verbatim>\<open>try\<close> catches only
  \<^verbatim>\<open>AttributeError\<close> and the second only \<^verbatim>\<open>AttributeError\<close> and
  \<^verbatim>\<open>MissingTokenMetadata\<close>, so the \<^verbatim>\<open>KeyError\<close> of a subscript on a missing key
  leaves the function as it is.
\<close>

definition get_contract :: "settings \<Rightarrow> (string \<rightharpoonup> string) \<Rightarrow> string \<Rightarrow> error + pyval" where
  "get_contract st contracts symbol0 =
     (let sym = upper symbol0 in
      case st sym of
        None \<Rightarrow> Inl KeyError
      | Some NonDict \<Rightarrow> Inl TokenNotFound
      | Some (Dict d) \<Rightarrow>
          (let contract = dict_get d ''contract'' in
           if \<not> empty_py contract then Inr contract
           else (case contracts sym of
                   None \<Rightarrow> Inl KeyError
                 | Some c \<Rightarrow>
                     if empty_py (PStr c) then Inl MissingTokenMetadata
                     else Inr (PStr c))))"

subsection \<open>The cached client\<close>

text \<open>
  A \<^verbatim>\<open>Cleos\<close> object is its URL together with the identity of the object, drawn from
  a counter at construction, so that equality of handles is reference equality.
  Constructing one opens no connection and does not raise; the object has no
  \<^verbatim>\<open>__bool__\<close> or \<^verbatim>\<open>__len__\<close>, so it is true in a condition.
\<close>

record cleos =
  cleos_url :: string
  cleos_id :: nat

text \<open>
  The instance attributes the mixin writes. \<open>eos_attr\<close> is the instance attribute
  \<^verbatim>\<open>_eos\<close>: \<open>None\<close> when the instance has no such attribute, and then a read of
  \<^verbatim>\<open>self._eos\<close> finds the class attribute \<^verbatim>\<open>_eos = None\<close>.
\<close>

record mixin =
  eos_attr :: "cleos option"
  current_rpc :: "string option"
  fresh :: nat

text \<open>\<^verbatim>\<open>__init__\<close> sets \<^verbatim>\<open>current_rpc\<close> only.\<close>

definition init :: "nat \<Rightarrow> mixin" where
  "init n = \<lparr>eos_attr = None, current_rpc = None, fresh = n\<rparr>"

text \<open>
  The \<^verbatim>\<open>eos\<close> property. The result is the returned handle or the exception, with the
  instance as the call leaves it. The f-string of the log line evaluates
  \<^verbatim>\<open>self.url\<close> before anything is assigned.
\<close>

definition eos :: "settings \<Rightarrow> mixin \<Rightarrow> (error + cleos) \<times> mixin" where
  "eos st self =
     (case eos_attr self of
        Some h \<Rightarrow> (Inr h, self)
      | None \<Rightarrow>
          (case url st of
             Inl e \<Rightarrow> (Inl e, self)
           | Inr u \<Rightarrow>
               (let self1 = self\<lparr>current_rpc := Some u\<rparr>;
                    h = \<lparr>cleos_url = u, cleos_id = fresh self1\<rparr>;
                    self2 = self1\<lparr>eos_attr := Some h, fresh := Suc (fresh self1)\<rparr>
                in (Inr h, self2))))"

text \<open>
  \<^verbatim>\<open>replace_eos(**conn)\<close>. \<^verbatim>\<open>del self._eos\<close> raises \<^verbatim>\<open>AttributeError\<close> when
  the instance has no attribute of that name: a class attribute cannot be deleted
  through the instance.
\<close>

definition replace_eos :: "dict \<Rightarrow> mixin \<Rightarrow> (error + cleos) \<times> mixin" where
  "replace_eos conn self =
     (case eos_attr self of
        None \<Rightarrow> (Inl AttributeError, self)
      | Some _ \<Rightarrow>
          (let self1 = self\<lparr>eos_attr := None\<rparr> in
           case make_url conn of
             Inl e \<Rightarrow> (Inl e, self1)
           | Inr u \<Rightarrow>
               (let self2 = self1\<lparr>current_rpc := Some u\<rparr>;
                    h = \<lparr>cleos_url = u, cleos_id = fresh self2\<rparr>;
                    self3 = self2\<lparr>eos_attr := Some h, fresh := Suc (fresh self2)\<rparr>
                in (Inr h, self3))))"

subsection \<open>The supported coins\<close>

text \<open>
  The fields of \<^verbatim>\<open>payments.models.Coin\<close> that the mixin reads, and the table behind
  \<^verbatim>\<open>Coin.objects\<close>. \<^verbatim>\<open>Coin.objects.get\<close> is Django's: it returns the one row
  that matches, and raises \<^verbatim>\<open>DoesNotExist\<close> for none and
  \<^verbatim>\<open>MultipleObjectsReturned\<close> for several.
\<close>

record Coin =
  symbol :: string
  symbol_id :: string
  coin_type :: string

definition objects_get :: "(Coin \<Rightarrow> bool) \<Rightarrow> Coin list \<Rightarrow> error + Coin" where
  "objects_get p db =
     (case filter p db of
        [] \<Rightarrow> Inl DoesNotExist
      | [c] \<Rightarrow> Inr c
      | _ \<Rightarrow> Inl MultipleObjectsReturned)"

text \<open>
  The instance attributes \<^verbatim>\<open>coins\<close> (a loader) and \<^verbatim>\<open>coin\<close> (a manager); each
  may be missing, which \<^verbatim>\<open>hasattr\<close> tests.
\<close>

record holder =
  coins :: "(string \<rightharpoonup> Coin) option"
  coin :: "Coin option"

text \<open>Lines 120 to 126 of \<^verbatim>\<open>all_coins\<close>: the dictionary the instance supplies.\<close>

definition instance_coins :: "holder \<Rightarrow> error + (string \<rightharpoonup> Coin)" where
  "instance_coins self =
     (case coins self of
        Some cs \<Rightarrow> Inr cs
      | None \<Rightarrow>
          (case coin self of
             Some k \<Rightarrow> Inr [symbol_id k \<mapsto> k]
           | None \<Rightarrow> Inl NoCoinAttribute))"

definition get_by_symbol :: "Coin list \<Rightarrow> error + Coin" where
  "get_by_symbol db = objects_get (\<lambda>k. symbol k = chain_coin \<and> coin_type k = chain_type) db"

definition get_by_symbol_id :: "Coin list \<Rightarrow> error + Coin" where
  "get_by_symbol_id db = objects_get (\<lambda>k. symbol_id k = chain_coin \<and> coin_type k = chain_type) db"

text \<open>
  The \<^verbatim>\<open>all_coins\<close> property. Only \<^verbatim>\<open>Coin.DoesNotExist\<close> of the first lookup is
  caught; the second lookup runs inside the handler and nothing catches what it raises.
\<close>

definition all_coins :: "holder \<Rightarrow> Coin list \<Rightarrow> error + (string \<rightharpoonup> Coin)" where
  "all_coins self db =
     bnd (instance_coins self) (\<lambda>c.
       case c chain_coin of
         Some _ \<Rightarrow> Inr c
       | None \<Rightarrow>
           (case get_by_symbol db of
              Inr k \<Rightarrow> Inr (c(chain_coin \<mapsto> k))
            | Inl DoesNotExist \<Rightarrow>
                (case get_by_symbol_id db of
                   Inr k \<Rightarrow> Inr (c(chain_coin \<mapsto> k))
                 | Inl e \<Rightarrow> Inl e)
            | Inl e \<Rightarrow> Inl e))"

section \<open>Properties\<close>

subsection \<open>Sequencing and lookups\<close>

lemma bnd_Inr: "bnd m f = Inr y \<longleftrightarrow> (\<exists>x. m = Inr x \<and> f x = Inr y)"
  by (cases m) (simp_all add: bnd_def)

lemma getitem_Inr: "getitem d k = Inr v \<longleftrightarrow> d k = Some v"
  by (simp add: getitem_def split: option.splits)

subsection \<open>Upper case\<close>

lemma upper_char_idem: "upper_char (upper_char c) = upper_char c"
proof -
  define n where "n = (of_char c :: nat)"
  show ?thesis
  proof (cases "97 \<le> n \<and> n \<le> 122")
    case True
    then have up: "upper_char c = char_of (n - 32)"
      by (simp add: upper_char_def Let_def n_def)
    from True have "n - 32 < 256"
      by arith
    then have rt: "(of_char (char_of (n - 32) :: char) :: nat) = n - 32"
      by simp
    from True have "\<not> (97 \<le> n - 32 \<and> n - 32 \<le> 122)"
      by arith
    then have "upper_char (char_of (n - 32)) = char_of (n - 32)"
      by (simp only: upper_char_def Let_def rt if_False)
    with up show ?thesis
      by simp
  next
    case False
    then have "upper_char c = c"
      by (auto simp: upper_char_def Let_def n_def)
    then show ?thesis
      by simp
  qed
qed

lemma upper_idem: "upper (upper s) = upper s"
  by (simp add: upper_def upper_char_idem)

subsection \<open>The connection URL\<close>

lemma merge_defaults_idem:
  "setting_defaults ++ (setting_defaults ++ conn) = setting_defaults ++ conn"
  by (rule ext) (simp add: map_add_def split: option.splits)

lemma make_url_merged: "make_url (setting_defaults ++ conn) = make_url conn"
  by (simp only: make_url_def merge_defaults_idem)

text \<open>A URL that is returned is the scheme, the host part, a slash and the endpoint,
  less one final slash.\<close>

lemma make_url_shape:
  assumes "make_url conn = Inr u"
  shows "\<exists>v host e. (setting_defaults ++ conn) ''ssl'' = Some v
           \<and> u = (let w = (if truthy v then ''https'' else ''http'') @ ''://'' @ host @ ''/'' @ e
                  in if last w = CHR ''/'' then butlast w else w)"
proof -
  from assms have "\<exists>v host e. (setting_defaults ++ conn) ''ssl'' = Some v \<and>
      (let w = (if truthy v then ''https'' else ''http'') @ ''://'' @ host @ ''/'' @ e
           in if w = [] then Inl IndexError
              else Inr (if last w = CHR ''/'' then butlast w else w)) = (Inr u :: error + string)"
    unfolding make_url_def Let_def bnd_Inr getitem_Inr
    by (elim exE conjE, intro exI conjI) assumption+
  then obtain v host e where
    ssl: "(setting_defaults ++ conn) ''ssl'' = Some v" and
    fin: "(let w = (if truthy v then ''https'' else ''http'') @ ''://'' @ host @ ''/'' @ e
           in if w = [] then Inl IndexError
              else Inr (if last w = CHR ''/'' then butlast w else w)) = (Inr u :: error + string)"
    by (elim exE conjE)
  have "(if truthy v then ''https'' else ''http'') @ ''://'' @ host @ ''/'' @ e \<noteq> []"
    by simp
  with fin have ueq: "u = (let w = (if truthy v then ''https'' else ''http'') @ ''://'' @ host @ ''/'' @ e
                  in if last w = CHR ''/'' then butlast w else w)"
    unfolding Let_def by (simp only: if_False sum.inject)
  show ?thesis
    by (intro exI conjI) (rule ssl, rule ueq)
qed

lemma strip_keeps_prefix:
  assumes "ys \<noteq> []"
  shows "take (length p) (if last (p @ ys) = c then butlast (p @ ys) else p @ ys) = p"
  using assms by (simp add: butlast_append)

text \<open>The scheme follows the merged \<^verbatim>\<open>ssl\<close> flag, and the URL is not empty.\<close>

lemma make_url_scheme:
  assumes "make_url conn = Inr u" and "(setting_defaults ++ conn) ''ssl'' = Some v"
  shows "if truthy v then take 8 u = ''https://'' else take 7 u = ''http://''"
proof -
  from make_url_shape [OF assms(1)] assms(2) obtain host e where
    u: "u = (let w = (if truthy v then ''https'' else ''http'') @ ''://'' @ host @ ''/'' @ e
             in if last w = CHR ''/'' then butlast w else w)"
    by auto
  have ne: "host @ ''/'' @ e \<noteq> []"
    by simp
  show ?thesis
  proof (cases "truthy v")
    case True
    from strip_keeps_prefix [OF ne, of "''https://''" "CHR ''/''"] True u show ?thesis
      by (simp add: Let_def)
  next
    case False
    from strip_keeps_prefix [OF ne, of "''http://''" "CHR ''/''"] False u show ?thesis
      by (simp add: Let_def)
  qed
qed

lemma make_url_nonempty:
  assumes "make_url conn = Inr u"
  shows "u \<noteq> []"
proof -
  from make_url_shape [OF assms] obtain v where "(setting_defaults ++ conn) ''ssl'' = Some v"
    by (elim exE conjE)
  from make_url_scheme [OF assms this] show ?thesis
    by (auto split: if_splits)
qed

lemma merged_key:
  assumes "setting_defaults k = Some d"
  shows "\<exists>v. (setting_defaults ++ conn) k = Some v"
  using assms by (cases "conn k") (simp_all add: map_add_def)

text \<open>\<^verbatim>\<open>_make_url\<close> returns exactly when the merged endpoint is a string; every key it
  reads is in \<^verbatim>\<open>setting_defaults\<close>.\<close>

lemma make_url_returns:
  "(\<exists>u. make_url conn = Inr u) \<longleftrightarrow>
     (\<exists>e. (setting_defaults ++ conn) ''endpoint'' = Some (PStr e))"
proof
  assume "\<exists>u. make_url conn = Inr u"
  then obtain u where "make_url conn = Inr u" ..
  then have "\<exists>ep x. (setting_defaults ++ conn) ''endpoint'' = Some ep
      \<and> (case ep of PStr e \<Rightarrow> Inr (if length e > 0 \<and> hd e = CHR ''/'' then tl e else e)
          | _ \<Rightarrow> Inl TypeError) = (Inr x :: error + string)"
    unfolding make_url_def Let_def bnd_Inr getitem_Inr
    by (elim exE conjE, intro exI conjI) assumption+
  then obtain ep x where ep: "(setting_defaults ++ conn) ''endpoint'' = Some ep"
    and x: "(case ep of PStr e \<Rightarrow> Inr (if length e > 0 \<and> hd e = CHR ''/'' then tl e else e)
          | _ \<Rightarrow> Inl TypeError) = (Inr x :: error + string)"
    by (elim exE conjE)
  from x obtain e where "ep = PStr e"
    by (cases ep) simp_all
  with ep show "\<exists>e. (setting_defaults ++ conn) ''endpoint'' = Some (PStr e)"
    by simp
next
  assume "\<exists>e. (setting_defaults ++ conn) ''endpoint'' = Some (PStr e)"
  then obtain e where e: "(setting_defaults ++ conn) ''endpoint'' = Some (PStr e)" ..
  have "setting_defaults ''ssl'' = Some (PBool True)"
    by (simp add: setting_defaults_def)
  from merged_key [OF this] obtain v where v: "(setting_defaults ++ conn) ''ssl'' = Some v" ..
  have "setting_defaults ''host'' = Some (PStr ''eos.greymass.com'')"
    by (simp add: setting_defaults_def)
  from merged_key [OF this] obtain h where h: "(setting_defaults ++ conn) ''host'' = Some h" ..
  have "setting_defaults ''port'' = Some (PInt 443)"
    by (simp add: setting_defaults_def)
  from merged_key [OF this] obtain p where p: "(setting_defaults ++ conn) ''port'' = Some p" ..
  have "setting_defaults ''username'' = Some PNone"
    by (simp add: setting_defaults_def)
  from merged_key [OF this] obtain un where un: "(setting_defaults ++ conn) ''username'' = Some un" ..
  have "setting_defaults ''password'' = Some PNone"
    by (simp add: setting_defaults_def)
  from merged_key [OF this] obtain pw where pw: "(setting_defaults ++ conn) ''password'' = Some pw" ..
  show "\<exists>u. make_url conn = Inr u"
    unfolding make_url_def Let_def
    using e v h p un pw by (simp add: getitem_def bnd_def)
qed

text \<open>
  C2. The claim is that the URL never ends with a slash. \<^verbatim>\<open>_make_url\<close> removes one
  leading slash of the endpoint and one final slash of the composed URL, so for the
  endpoint \<^verbatim>\<open>'//'\<close> the URL it returns ends with a slash.
\<close>

theorem make_url_double_slash_endpoint:
  "make_url [''endpoint'' \<mapsto> PStr ''//''] = Inr ''https://eos.greymass.com:443/''"
  by code_simp

subsection \<open>Contract lookup\<close>

lemma get_contract_upper: "get_contract st contracts (upper s) = get_contract st contracts s"
  by (simp add: get_contract_def upper_idem)

lemma get_contract_absent:
  "st (upper s) = None \<Longrightarrow> get_contract st contracts s = Inl KeyError"
  by (simp add: get_contract_def)

lemma get_contract_TokenNotFound:
  "get_contract st contracts s = Inl TokenNotFound \<longleftrightarrow> st (upper s) = Some NonDict"
  by (auto simp: get_contract_def Let_def split: option.splits entry.splits)

lemma get_contract_MissingTokenMetadata:
  "get_contract st contracts s = Inl MissingTokenMetadata \<longleftrightarrow>
     (\<exists>d. st (upper s) = Some (Dict d) \<and> empty_py (dict_get d ''contract'')
          \<and> contracts (upper s) = Some [])"
  by (auto simp: get_contract_def Let_def empty_py_def split: option.splits entry.splits)

text \<open>
  C1. The claim is that settings \<^verbatim>\<open>{XYZ: {contract: ''}}\<close> and a fallback table without
  \<^verbatim>\<open>XYZ\<close> give \<^verbatim>\<open>MissingTokenMetadata\<close>. The subscript
  \<^verbatim>\<open>self.default_contracts[symbol]\<close> raises \<^verbatim>\<open>KeyError\<close> there, and the handler
  around it catches \<^verbatim>\<open>AttributeError\<close> and \<^verbatim>\<open>MissingTokenMetadata\<close> only.
\<close>

theorem get_contract_empty_contract_no_fallback:
  "get_contract [''XYZ'' \<mapsto> Dict [''contract'' \<mapsto> PStr []]] default_contracts ''XYZ''
     = Inl KeyError"
  by code_simp

text \<open>
  C3. The claim is that a symbol whose upper-case form is not a key of the settings
  gives \<^verbatim>\<open>TokenNotFound\<close>. The subscript \<^verbatim>\<open>self.settings[symbol]\<close> raises
  \<^verbatim>\<open>KeyError\<close> there, and the handler around it catches \<^verbatim>\<open>AttributeError\<close> only.
\<close>

theorem get_contract_absent_symbol:
  "get_contract Map.empty default_contracts ''XYZ'' = Inl KeyError"
  by code_simp

text \<open>
  C9. The claim is that the symbol is put in upper case before any lookup, and that
  \<^verbatim>\<open>get_contract('xyz')\<close> gives \<^verbatim>\<open>TokenNotFound\<close> when nothing has an entry for
  \<^verbatim>\<open>XYZ\<close>. The first part is \<open>get_contract_upper\<close>; at the lower-case input the
  function raises \<^verbatim>\<open>KeyError\<close>, as it does for \<^verbatim>\<open>'XYZ'\<close>.
\<close>

theorem get_contract_lowercase_absent:
  "get_contract Map.empty default_contracts ''xyz'' = Inl KeyError
   \<and> get_contract Map.empty default_contracts ''xyz''
       = get_contract Map.empty default_contracts (upper ''xyz'')"
  by code_simp

text \<open>
  C4. When the settings have a dictionary for the symbol (looked up in upper case)
  whose contract is neither \<^verbatim>\<open>None\<close> nor the empty string, \<^verbatim>\<open>get_contract\<close>
  returns that contract, whatever the fallback table holds. When the contract is absent,
  \<^verbatim>\<open>None\<close> or empty and the fallback table has a non-empty contract for the symbol,
  it returns the fallback contract.
\<close>

theorem get_contract_override_then_fallback:
  assumes "st (upper s) = Some (Dict d)"
  shows "(\<forall>v. d ''contract'' = Some v \<and> v \<noteq> PNone \<and> v \<noteq> PStr [] \<longrightarrow>
            get_contract st contracts s = Inr v)
       \<and> (\<forall>c. (d ''contract'' = None \<or> d ''contract'' = Some PNone
               \<or> d ''contract'' = Some (PStr []))
              \<and> contracts (upper s) = Some c \<and> c \<noteq> [] \<longrightarrow>
            get_contract st contracts s = Inr (PStr c))"
  using assms by (auto simp: get_contract_def empty_py_def dict_get_def)

theorem get_contract_override_then_fallback_witness:
  "[''EOS'' \<mapsto> Dict [''contract'' \<mapsto> PStr ''custom.token'']] (upper ''eos'')
     = Some (Dict [''contract'' \<mapsto> PStr ''custom.token''])
   \<and> get_contract [''EOS'' \<mapsto> Dict [''contract'' \<mapsto> PStr ''custom.token'']]
        [''EOS'' \<mapsto> ''eosio.token''] ''eos'' = Inr (PStr ''custom.token'')
   \<and> [''EOS'' \<mapsto> Dict Map.empty] (upper ''EOS'') = Some (Dict Map.empty)
   \<and> get_contract [''EOS'' \<mapsto> Dict Map.empty] [''EOS'' \<mapsto> ''eosio.token''] ''EOS''
       = Inr (PStr ''eosio.token'')"
proof -
  have u1: "upper ''eos'' = ''EOS''" and u2: "upper ''EOS'' = ''EOS''"
    by code_simp+
  have h1: "[''EOS'' \<mapsto> Dict [''contract'' \<mapsto> PStr ''custom.token'']] (upper ''eos'')
     = Some (Dict [''contract'' \<mapsto> PStr ''custom.token''])"
    by (simp add: u1)
  have h2: "[''EOS'' \<mapsto> Dict Map.empty] (upper ''EOS'') = Some (Dict Map.empty)"
    by (simp add: u2)
  have r1: "get_contract [''EOS'' \<mapsto> Dict [''contract'' \<mapsto> PStr ''custom.token'']]
        [''EOS'' \<mapsto> ''eosio.token''] ''eos'' = Inr (PStr ''custom.token'')"
    using get_contract_override_then_fallback
      [where st = "[''EOS'' \<mapsto> Dict [''contract'' \<mapsto> PStr ''custom.token'']]"
         and s = "''eos''" and d = "[''contract'' \<mapsto> PStr ''custom.token'']"
         and contracts = "[''EOS'' \<mapsto> ''eosio.token'']", OF h1]
    by simp
  have r2: "get_contract [''EOS'' \<mapsto> Dict Map.empty] [''EOS'' \<mapsto> ''eosio.token''] ''EOS''
       = Inr (PStr ''eosio.token'')"
    using get_contract_override_then_fallback
      [where st = "[''EOS'' \<mapsto> Dict Map.empty]" and s = "''EOS''" and d = Map.empty
         and contracts = "[''EOS'' \<mapsto> ''eosio.token'']", OF h2]
    by (simp add: u2)
  show ?thesis
    by (intro conjI) (rule h1, rule r1, rule h2, rule r2)
qed


subsection \<open>Chain settings\<close>

text \<open>
  C8. \<^verbatim>\<open>eos_settings\<close> is the settings entry of the native coin symbol when the
  resolved mapping has one, and the static \<^verbatim>\<open>setting_defaults\<close> when it has none;
  \<^verbatim>\<open>.get\<close> with a default raises in neither case.
\<close>

theorem eos_settings_lookup:
  "(st chain_coin = Some e \<longrightarrow> eos_settings st = e)
   \<and> (st chain_coin = None \<longrightarrow> eos_settings st = Dict setting_defaults)"
  by (simp add: eos_settings_def get_default_def)

theorem eos_settings_lookup_witness:
  "[''EOS'' \<mapsto> Dict [''host'' \<mapsto> PStr ''example.com'']] chain_coin
     = Some (Dict [''host'' \<mapsto> PStr ''example.com''])
   \<and> eos_settings [''EOS'' \<mapsto> Dict [''host'' \<mapsto> PStr ''example.com'']]
       = Dict [''host'' \<mapsto> PStr ''example.com'']
   \<and> [''XYZ'' \<mapsto> Dict Map.empty] chain_coin = None
   \<and> eos_settings [''XYZ'' \<mapsto> Dict Map.empty] = Dict setting_defaults"
  using eos_settings_lookup
          [of "[''EOS'' \<mapsto> Dict [''host'' \<mapsto> PStr ''example.com'']]"
              "Dict [''host'' \<mapsto> PStr ''example.com'']"]
        eos_settings_lookup [of "[''XYZ'' \<mapsto> Dict Map.empty]"]
  by (simp add: chain_coin_def)

subsection \<open>The cached client\<close>

lemma eos_cached: "eos_attr self = Some h \<Longrightarrow> eos st self = (Inr h, self)"
  by (simp add: eos_def)

lemma eos_returns_cached:
  assumes "eos st self = (Inr h, self')"
  shows "eos_attr self' = Some h"
  using assms by (auto simp: eos_def Let_def split: option.splits sum.splits)

text \<open>
  C6. When the getter returns a handle, a second access returns the same handle and
  leaves the instance as the first access left it, also when the resolved settings
  have changed in between.
\<close>

theorem eos_twice:
  assumes "eos st self = (Inr h, self')"
  shows "eos st' self' = (Inr h, self')"
  using assms
  by (auto simp: eos_def Let_def split: option.splits sum.splits)

theorem eos_twice_witness:
  "eos Map.empty (init 0) =
     (Inr \<lparr>cleos_url = ''https://eos.greymass.com:443'', cleos_id = 0\<rparr>,
      \<lparr>eos_attr = Some \<lparr>cleos_url = ''https://eos.greymass.com:443'', cleos_id = 0\<rparr>,
       current_rpc = Some ''https://eos.greymass.com:443'', fresh = 1\<rparr>)
   \<and> eos [''EOS'' \<mapsto> Dict [''host'' \<mapsto> PStr ''example.com'']]
        \<lparr>eos_attr = Some \<lparr>cleos_url = ''https://eos.greymass.com:443'', cleos_id = 0\<rparr>,
         current_rpc = Some ''https://eos.greymass.com:443'', fresh = 1\<rparr> =
     (Inr \<lparr>cleos_url = ''https://eos.greymass.com:443'', cleos_id = 0\<rparr>,
      \<lparr>eos_attr = Some \<lparr>cleos_url = ''https://eos.greymass.com:443'', cleos_id = 0\<rparr>,
       current_rpc = Some ''https://eos.greymass.com:443'', fresh = 1\<rparr>)"
proof -
  have h: "eos Map.empty (init 0) =
     (Inr \<lparr>cleos_url = ''https://eos.greymass.com:443'', cleos_id = 0\<rparr>,
      \<lparr>eos_attr = Some \<lparr>cleos_url = ''https://eos.greymass.com:443'', cleos_id = 0\<rparr>,
       current_rpc = Some ''https://eos.greymass.com:443'', fresh = 1\<rparr>)"
    by code_simp
  show ?thesis
    by (intro conjI) (rule h, rule eos_twice [OF h])
qed

text \<open>
  C7. On an instance without the instance attribute \<^verbatim>\<open>_eos\<close>, and so on a freshly
  constructed one, \<^verbatim>\<open>replace_eos\<close> raises \<^verbatim>\<open>AttributeError\<close> at the deletion
  and leaves the instance as it was: no URL is built, no handle is constructed and
  \<^verbatim>\<open>current_rpc\<close> keeps its value. When \<^verbatim>\<open>replace_eos\<close> returns a handle, the
  instance had the attribute before the call.
\<close>

theorem replace_eos_without_handle:
  "replace_eos conn (init n) = (Inl AttributeError, init n)
   \<and> (eos_attr self = None \<longrightarrow> replace_eos conn self = (Inl AttributeError, self))
   \<and> (fst (replace_eos conn self) = Inr h \<longrightarrow> eos_attr self \<noteq> None)"
  by (auto simp: replace_eos_def init_def split: option.splits)

theorem replace_eos_without_handle_witness:
  "eos_attr (init 0) = None
   \<and> replace_eos [''host'' \<mapsto> PStr ''example.com''] (init 0) = (Inl AttributeError, init 0)
   \<and> fst (replace_eos [''host'' \<mapsto> PStr ''example.com'']
             \<lparr>eos_attr = Some \<lparr>cleos_url = ''https://eos.greymass.com:443'', cleos_id = 0\<rparr>,
              current_rpc = Some ''https://eos.greymass.com:443'', fresh = 1\<rparr>)
       = Inr \<lparr>cleos_url = ''https://example.com:443'', cleos_id = 1\<rparr>
   \<and> eos_attr \<lparr>eos_attr = Some \<lparr>cleos_url = ''https://eos.greymass.com:443'', cleos_id = 0\<rparr>,
               current_rpc = Some ''https://eos.greymass.com:443'', fresh = 1\<rparr> \<noteq> None"
proof -
  have a: "eos_attr (init 0) = None"
    by (simp add: init_def)
  have b: "fst (replace_eos [''host'' \<mapsto> PStr ''example.com'']
             \<lparr>eos_attr = Some \<lparr>cleos_url = ''https://eos.greymass.com:443'', cleos_id = 0\<rparr>,
              current_rpc = Some ''https://eos.greymass.com:443'', fresh = 1\<rparr>)
       = Inr \<lparr>cleos_url = ''https://example.com:443'', cleos_id = 1\<rparr>"
    by code_simp
  from a b
    replace_eos_without_handle [of "[''host'' \<mapsto> PStr ''example.com'']" 0 "init 0"]
    replace_eos_without_handle [of "[''host'' \<mapsto> PStr ''example.com'']" 0
       "\<lparr>eos_attr = Some \<lparr>cleos_url = ''https://eos.greymass.com:443'', cleos_id = 0\<rparr>,
         current_rpc = Some ''https://eos.greymass.com:443'', fresh = 1\<rparr>"
       "\<lparr>cleos_url = ''https://example.com:443'', cleos_id = 1\<rparr>"]
  show ?thesis
    by simp
qed

text \<open>
  C5. On an instance that holds a handle (the getter returns it, whatever resolved
  settings \<open>st\<close> it was built from), and for keyword arguments from which
  \<^verbatim>\<open>_make_url\<close> returns a URL, \<^verbatim>\<open>replace_eos\<close> returns a newly constructed handle
  for that URL, stores it in \<^verbatim>\<open>_eos\<close> and stores the URL in \<^verbatim>\<open>current_rpc\<close>. The
  URL is that of the arguments merged over \<^verbatim>\<open>setting_defaults\<close>; the resolved
  settings do not occur in it.
\<close>

theorem replace_eos_url_from_defaults:
  assumes "eos st self0 = (Inr h0, self)" and "make_url conn = Inr u"
  shows "replace_eos conn self =
           (Inr \<lparr>cleos_url = u, cleos_id = fresh self\<rparr>,
            self\<lparr>eos_attr := Some \<lparr>cleos_url = u, cleos_id = fresh self\<rparr>,
                 current_rpc := Some u, fresh := Suc (fresh self)\<rparr>)
         \<and> make_url (setting_defaults ++ conn) = Inr u"
proof -
  from assms(1) have "eos_attr self = Some h0"
    by (rule eos_returns_cached)
  with assms(2) show ?thesis
    by (simp add: replace_eos_def Let_def make_url_merged)
qed

theorem replace_eos_url_from_defaults_witness:
  "eos [''EOS'' \<mapsto> Dict [''host'' \<mapsto> PStr ''example.com'']] (init 0) =
     (Inr \<lparr>cleos_url = ''https://example.com:443'', cleos_id = 0\<rparr>,
      \<lparr>eos_attr = Some \<lparr>cleos_url = ''https://example.com:443'', cleos_id = 0\<rparr>,
       current_rpc = Some ''https://example.com:443'', fresh = 1\<rparr>)
   \<and> make_url [''port'' \<mapsto> PInt 80, ''ssl'' \<mapsto> PBool False] = Inr ''http://eos.greymass.com:80''
   \<and> replace_eos [''port'' \<mapsto> PInt 80, ''ssl'' \<mapsto> PBool False]
        \<lparr>eos_attr = Some \<lparr>cleos_url = ''https://example.com:443'', cleos_id = 0\<rparr>,
         current_rpc = Some ''https://example.com:443'', fresh = 1\<rparr> =
     (Inr \<lparr>cleos_url = ''http://eos.greymass.com:80'', cleos_id = 1\<rparr>,
      \<lparr>eos_attr = Some \<lparr>cleos_url = ''http://eos.greymass.com:80'', cleos_id = 1\<rparr>,
       current_rpc = Some ''http://eos.greymass.com:80'', fresh = 2\<rparr>)"
proof -
  have a: "eos [''EOS'' \<mapsto> Dict [''host'' \<mapsto> PStr ''example.com'']] (init 0) =
     (Inr \<lparr>cleos_url = ''https://example.com:443'', cleos_id = 0\<rparr>,
      \<lparr>eos_attr = Some \<lparr>cleos_url = ''https://example.com:443'', cleos_id = 0\<rparr>,
       current_rpc = Some ''https://example.com:443'', fresh = 1\<rparr>)"
    by code_simp
  have b: "make_url [''port'' \<mapsto> PInt 80, ''ssl'' \<mapsto> PBool False] = Inr ''http://eos.greymass.com:80''"
    by code_simp
  from a b replace_eos_url_from_defaults [OF a b] show ?thesis
    by simp
qed

subsection \<open>The supported coins\<close>

text \<open>
  C10. When \<^verbatim>\<open>all_coins\<close> returns, its result has an entry for the native coin
  symbol. When the dictionary the instance supplies has none, the result is that
  dictionary with the native coin added, the coin being the row found by symbol or,
  when that lookup raised \<^verbatim>\<open>DoesNotExist\<close>, the row found by \<^verbatim>\<open>symbol_id\<close>. When
  the first lookup raised \<^verbatim>\<open>DoesNotExist\<close> and the second raises, \<^verbatim>\<open>all_coins\<close>
  raises what the second lookup raised.
\<close>

theorem all_coins_has_chain_coin:
  "(all_coins self db = Inr c \<longrightarrow>
      c chain_coin \<noteq> None
      \<and> (\<forall>c0. instance_coins self = Inr c0 \<and> c0 chain_coin = None \<longrightarrow>
            (\<exists>k. c = c0(chain_coin \<mapsto> k)
               \<and> (get_by_symbol db = Inr k
                  \<or> get_by_symbol db = Inl DoesNotExist \<and> get_by_symbol_id db = Inr k))))
   \<and> (\<forall>c0 e. instance_coins self = Inr c0 \<and> c0 chain_coin = None
         \<and> get_by_symbol db = Inl DoesNotExist \<and> get_by_symbol_id db = Inl e \<longrightarrow>
         all_coins self db = Inl e)"
  by (auto simp: all_coins_def bnd_def split: sum.splits option.splits error.splits)


theorem all_coins_has_chain_coin_witness:
  "all_coins \<lparr>coins = None,
              coin = Some \<lparr>symbol = ''XYZ'', symbol_id = ''XYZ'', coin_type = ''eos''\<rparr>\<rparr>
     [\<lparr>symbol = ''EOSP'', symbol_id = ''EOS'', coin_type = ''eos''\<rparr>]
     = Inr [''XYZ'' \<mapsto> \<lparr>symbol = ''XYZ'', symbol_id = ''XYZ'', coin_type = ''eos''\<rparr>,
            ''EOS'' \<mapsto> \<lparr>symbol = ''EOSP'', symbol_id = ''EOS'', coin_type = ''eos''\<rparr>]
   \<and> [''XYZ'' \<mapsto> \<lparr>symbol = ''XYZ'', symbol_id = ''XYZ'', coin_type = ''eos''\<rparr>,
       ''EOS'' \<mapsto> \<lparr>symbol = ''EOSP'', symbol_id = ''EOS'', coin_type = ''eos''\<rparr>] chain_coin \<noteq> None
   \<and> instance_coins \<lparr>coins = None,
              coin = Some \<lparr>symbol = ''XYZ'', symbol_id = ''XYZ'', coin_type = ''eos''\<rparr>\<rparr>
     = Inr [''XYZ'' \<mapsto> \<lparr>symbol = ''XYZ'', symbol_id = ''XYZ'', coin_type = ''eos''\<rparr>]
   \<and> [''XYZ'' \<mapsto> \<lparr>symbol = ''XYZ'', symbol_id = ''XYZ'', coin_type = ''eos''\<rparr>] chain_coin = None
   \<and> get_by_symbol [] = Inl DoesNotExist
   \<and> get_by_symbol_id [] = Inl DoesNotExist
   \<and> all_coins \<lparr>coins = None,
              coin = Some \<lparr>symbol = ''XYZ'', symbol_id = ''XYZ'', coin_type = ''eos''\<rparr>\<rparr> []
     = Inl DoesNotExist"
proof -
  have a: "all_coins \<lparr>coins = None,
              coin = Some \<lparr>symbol = ''XYZ'', symbol_id = ''XYZ'', coin_type = ''eos''\<rparr>\<rparr>
     [\<lparr>symbol = ''EOSP'', symbol_id = ''EOS'', coin_type = ''eos''\<rparr>]
     = Inr [''XYZ'' \<mapsto> \<lparr>symbol = ''XYZ'', symbol_id = ''XYZ'', coin_type = ''eos''\<rparr>,
            ''EOS'' \<mapsto> \<lparr>symbol = ''EOSP'', symbol_id = ''EOS'', coin_type = ''eos''\<rparr>]"
    by (simp add: all_coins_def instance_coins_def get_by_symbol_def get_by_symbol_id_def
          objects_get_def bnd_def chain_coin_def chain_type_def)
  have b: "instance_coins \<lparr>coins = None,
              coin = Some \<lparr>symbol = ''XYZ'', symbol_id = ''XYZ'', coin_type = ''eos''\<rparr>\<rparr>
     = Inr [''XYZ'' \<mapsto> \<lparr>symbol = ''XYZ'', symbol_id = ''XYZ'', coin_type = ''eos''\<rparr>]"
    by (simp add: instance_coins_def)
  have c: "[''XYZ'' \<mapsto> \<lparr>symbol = ''XYZ'', symbol_id = ''XYZ'', coin_type = ''eos''\<rparr>] chain_coin = None"
    by (simp add: chain_coin_def)
  have d: "get_by_symbol [] = Inl DoesNotExist" and e: "get_by_symbol_id [] = Inl DoesNotExist"
    by (simp_all add: get_by_symbol_def get_by_symbol_id_def objects_get_def)
  from a b c d e
    all_coins_has_chain_coin
      [of "\<lparr>coins = None,
              coin = Some \<lparr>symbol = ''XYZ'', symbol_id = ''XYZ'', coin_type = ''eos''\<rparr>\<rparr>"
          "[\<lparr>symbol = ''EOSP'', symbol_id = ''EOS'', coin_type = ''eos''\<rparr>]"
          "[''XYZ'' \<mapsto> \<lparr>symbol = ''XYZ'', symbol_id = ''XYZ'', coin_type = ''eos''\<rparr>,
            ''EOS'' \<mapsto> \<lparr>symbol = ''EOSP'', symbol_id = ''EOS'', coin_type = ''eos''\<rparr>]"]
    all_coins_has_chain_coin
      [of "\<lparr>coins = None,
              coin = Some \<lparr>symbol = ''XYZ'', symbol_id = ''XYZ'', coin_type = ''eos''\<rparr>\<rparr>" "[]"]
  show ?thesis
    by simp
qed


end
